theory Spec2Isabelle
  imports Complex_Main "HOL-Library.List_Lexorder" "HOL-Library.Multiset"
begin

section \<open>Data model\<close>

text \<open>
  A Python \<^verbatim>\<open>str\<close> is a sequence of Unicode code points, and \<^verbatim>\<open>len\<close>, slicing and
  comparison work on code points. It is modelled as a list of code points; \<open>ascii\<close> turns
  an ASCII literal into such a list.
\<close>

type_synonym pystr = "nat list"

definition ascii :: "string \<Rightarrow> pystr" where
  "ascii s = map of_char s"

text \<open>
  A float cell of the table is a number or NaN. Numbers are modelled as exact real numbers and
  NaN as \<open>None\<close>; arithmetic propagates NaN as IEEE arithmetic does. Binary rounding
  error of the 64-bit floats is outside the model: a value of the model and the double of
  the program differ by the error of a few floating-point operations.
\<close>

type_synonym pyfloat = "real option"

definition fadd :: "pyfloat \<Rightarrow> pyfloat \<Rightarrow> pyfloat" where
  "fadd a b = (case (a, b) of (Some x, Some y) \<Rightarrow> Some (x + y) | _ \<Rightarrow> None)"

definition fsub :: "pyfloat \<Rightarrow> pyfloat \<Rightarrow> pyfloat" where
  "fsub a b = (case (a, b) of (Some x, Some y) \<Rightarrow> Some (x - y) | _ \<Rightarrow> None)"

definition fscale :: "real \<Rightarrow> pyfloat \<Rightarrow> pyfloat" where
  "fscale k a = map_option (\<lambda>x. k * x) a"

text \<open>The comparison \<^verbatim>\<open>a >= b\<close> on floats: false as soon as one side is NaN.\<close>

definition fge :: "pyfloat \<Rightarrow> pyfloat \<Rightarrow> bool" where
  "fge a b = (case (a, b) of (Some x, Some y) \<Rightarrow> y \<le> x | _ \<Rightarrow> False)"

text \<open>
  \<^verbatim>\<open>round(x, 2)\<close> on a numpy float and \<^verbatim>\<open>Series.round(2)\<close>: scale by 100, round
  to the nearest integer with ties to the even one, scale back. NaN stays NaN. The function
  agrees with the program wherever the exact value is not a decimal tie. At a decimal tie
  that no double represents, such as 8.425, the program rounds the double it holds, which
  lies just above or just below the tie, and may return either neighbour; statements about
  rounded means are therefore made with the relation \<open>rounded_to_2\<close> below, which admits
  both.
\<close>

definition round_half_even :: "real \<Rightarrow> int" where
  "round_half_even x =
     (let f = \<lfloor>x\<rfloor>; d = x - of_int f
      in if d < 1 / 2 then f else if 1 / 2 < d then f + 1 else if even f then f else f + 1)"

definition round2 :: "real \<Rightarrow> real" where
  "round2 x = of_int (round_half_even (x * 100)) / 100"

definition fround2 :: "pyfloat \<Rightarrow> pyfloat" where
  "fround2 a = map_option round2 a"

text \<open>The six rating columns \<^verbatim>\<open>RATING_COLS\<close> and the three free-text columns \<^verbatim>\<open>QUOTE_COLS\<close>.\<close>

datatype rating_col = R_1_3 | R_1_4 | R_2_8 | R_v1_1_2 | R_v2_1_1 | R_v2_1_2

definition RATING_COLS :: "rating_col list" where
  "RATING_COLS = [R_1_3, R_1_4, R_2_8, R_v1_1_2, R_v2_1_1, R_v2_1_2]"

datatype quote_col = Q_3_12 | Q_3_13 | Q_2_6

definition QUOTE_COLS :: "quote_col list" where
  "QUOTE_COLS = [Q_3_12, Q_3_13, Q_2_6]"

text \<open>The label of a free-text column, as the header of the table spells it.\<close>

fun col_label :: "quote_col \<Rightarrow> pystr" where
  "col_label Q_3_12 = ascii ''3.12_What did you like most about their training style?*''"
| "col_label Q_3_13 = ascii (''3.13_Could you please share a highlight from the training? ''
     @ ''What stood out to you as particularly enjoyable or beneficial?*'')"
| "col_label Q_2_6 = ascii (''2.6_Did the trainer establish good rapport with the learners? ''
     @ ''Did they make you feel at ease to ask question, interact, and'') @ [160]
     @ ascii ''engage with the training? Give details.*''"

text \<open>
  What a cell read from the CSV file can hold: nothing (NaN), a number, a truth value or
  text. A column that the table does not have at all reads as \<open>Missing\<close> through
  \<^verbatim>\<open>row.get\<close>.
\<close>

datatype cell = Missing | Number real | Boolean bool | Text pystr

text \<open>
  One row of the cleaned table (a completed response): the identifier given at load time,
  the trainer, the parsed creation date (\<open>None\<close> is NaT), the rating columns after
  numeric coercion and the free-text columns.
\<close>

record feedback =
  row_id :: pystr
  Trainer :: pystr
  date :: "int option"
  rating :: "rating_col \<Rightarrow> pyfloat"
  answer :: "quote_col \<Rightarrow> cell"

section \<open>Trainer aggregation: \<^verbatim>\<open>compute_trainer_scores\<close>\<close>

definition MIN_RESPONSES :: nat where
  "MIN_RESPONSES = 3"

text \<open>
  \<^verbatim>\<open>Series.mean()\<close> skips NaN and is NaN when nothing is left.
\<close>

definition observed :: "pyfloat list \<Rightarrow> real list" where
  "observed xs = List.map_filter (\<lambda>x. x) xs"

definition nanmean :: "pyfloat list \<Rightarrow> pyfloat" where
  "nanmean xs =
     (let obs = observed xs
      in if obs = [] then None else Some (sum_list obs / of_nat (length obs)))"

text \<open>\<^verbatim>\<open>group[RATING_COLS].mean()\<close>: one mean per rating column.\<close>

definition column_means :: "feedback list \<Rightarrow> pyfloat list" where
  "column_means g = map (\<lambda>c. nanmean (map (\<lambda>r. rating r c) g)) RATING_COLS"

text \<open>\<^verbatim>\<open>group[RATING_COLS].mean().mean()\<close>.\<close>

definition mean_of_means :: "feedback list \<Rightarrow> pyfloat" where
  "mean_of_means g = nanmean (column_means g)"

text \<open>
  \<^verbatim>\<open>group.sort_values("date")\<close>: ascending by date, rows without a date last. The
  model keeps rows with equal dates in table order. The sort of the program is not stable:
  it does the same for short groups, but above 16 rows it may place rows with equal dates
  in another order. The relation \<open>date_ordering\<close> below covers every such placement.
\<close>

definition sort_by_date :: "feedback list \<Rightarrow> feedback list" where
  "sort_by_date g =
     sort_key (\<lambda>r. the (date r)) (filter (\<lambda>r. date r \<noteq> None) g)
       @ filter (\<lambda>r. date r = None) g"

text \<open>The dictionary appended to \<^verbatim>\<open>results\<close> for one trainer.\<close>

record result_row =
  trainer :: pystr
  n_responses :: nat
  overall_score :: pyfloat
  early_avg :: pyfloat
  late_avg :: pyfloat
  improvement :: pyfloat
  raw_combined :: pyfloat

text \<open>A row of \<^verbatim>\<open>scores_df\<close> once the column \<^verbatim>\<open>trainer_score\<close> has been added.\<close>

record score_row = result_row +
  trainer_score :: pyfloat

text \<open>The body of the loop over the groups, for a group that passed the threshold.\<close>

definition score_group :: "pystr \<Rightarrow> feedback list \<Rightarrow> result_row" where
  "score_group t g =
     (let n = length g;
          overall = mean_of_means g;
          group_sorted = sort_by_date g;
          mid = length group_sorted div 2;
          early_scores = (if 0 < mid then mean_of_means (take mid group_sorted) else overall);
          late_scores = (if 0 < mid then mean_of_means (drop mid group_sorted) else overall);
          improvement = (if 0 < mid then fsub late_scores early_scores else Some 0)
      in \<lparr>trainer = t, n_responses = n, overall_score = fround2 overall,
          early_avg = fround2 early_scores, late_avg = fround2 late_scores,
          improvement = fround2 improvement, raw_combined = overall\<rparr>)"

text \<open>
  \<^verbatim>\<open>df.groupby("Trainer")\<close>: the groups in ascending order of the trainer key, each
  with its rows in table order.
\<close>

definition group_of :: "feedback list \<Rightarrow> pystr \<Rightarrow> feedback list" where
  "group_of df t = filter (\<lambda>r. Trainer r = t) df"

definition groupby_Trainer :: "feedback list \<Rightarrow> (pystr \<times> feedback list) list" where
  "groupby_Trainer df = map (\<lambda>t. (t, group_of df t)) (sort (remdups (map Trainer df)))"

text \<open>The loop: groups below the threshold are skipped (\<^verbatim>\<open>continue\<close>).\<close>

definition results :: "feedback list \<Rightarrow> result_row list" where
  "results df =
     map (\<lambda>(t, g). score_group t g)
       (filter (\<lambda>(t, g). \<not> length g < MIN_RESPONSES) (groupby_Trainer df))"

text \<open>\<^verbatim>\<open>(0.6 * overall_score + 0.4 * late_avg).round(2)\<close>, from the columns of the row.\<close>

definition add_trainer_score :: "result_row \<Rightarrow> score_row" where
  "add_trainer_score r =
     \<lparr>trainer = trainer r, n_responses = n_responses r, overall_score = overall_score r,
      early_avg = early_avg r, late_avg = late_avg r, improvement = improvement r,
      raw_combined = raw_combined r,
      trainer_score = fround2 (fadd (fscale (6 / 10) (overall_score r))
                                    (fscale (4 / 10) (late_avg r)))\<rparr>"

text \<open>
  \<^verbatim>\<open>sort_values("trainer_score", ascending=False)\<close>: descending by score, rows whose
  score is NaN last. The order among rows with equal scores is that of a stable sort in
  the model; the sort of the program is not stable and may order such rows differently.
\<close>

definition sort_by_score_desc :: "score_row list \<Rightarrow> score_row list" where
  "sort_by_score_desc rows =
     rev (sort_key (\<lambda>r. the (trainer_score r)) (rev (filter (\<lambda>r. trainer_score r \<noteq> None) rows)))
       @ filter (\<lambda>r. trainer_score r = None) rows"

text \<open>
  The exceptions of the two scripts: \<^verbatim>\<open>sys.exit(1)\<close> raises \<^verbatim>\<open>SystemExit\<close> with the exit
  status (the warning line is printed just before); a string method called on a value that
  is not a string raises \<^verbatim>\<open>AttributeError\<close>.
\<close>

datatype error = SystemExit int | AttributeError

definition compute_trainer_scores :: "feedback list \<Rightarrow> error + score_row list" where
  "compute_trainer_scores df =
     (let scores_df = results df
      in if length scores_df = 0 then Inl (SystemExit 1)
         else Inr (sort_by_score_desc (map add_trainer_score scores_df)))"

section \<open>Evidence extraction: \<^verbatim>\<open>extract_best_quotes\<close>\<close>

text \<open>The code points that \<^verbatim>\<open>str.strip()\<close> removes (those with \<^verbatim>\<open>str.isspace\<close>).\<close>

definition is_space :: "nat \<Rightarrow> bool" where
  "is_space c \<longleftrightarrow>
     (9 \<le> c \<and> c \<le> 13) \<or> (28 \<le> c \<and> c \<le> 32) \<or> c = 133 \<or> c = 160 \<or> c = 5760
       \<or> (8192 \<le> c \<and> c \<le> 8202) \<or> c = 8232 \<or> c = 8233 \<or> c = 8239 \<or> c = 8287 \<or> c = 12288"

definition strip :: "pystr \<Rightarrow> pystr" where
  "strip s = rev (dropWhile is_space (rev (dropWhile is_space s)))"

text \<open>\<^verbatim>\<open>s.replace("\n", " ")\<close>.\<close>

definition replace_newlines :: "pystr \<Rightarrow> pystr" where
  "replace_newlines s = map (\<lambda>c. if c = 10 then 32 else c) s"

text \<open>\<^verbatim>\<open>col.split("_")[0]\<close>: the label up to its first underscore.\<close>

definition split_first :: "pystr \<Rightarrow> pystr" where
  "split_first s = takeWhile (\<lambda>c. c \<noteq> 95) s"

text \<open>\<^verbatim>\<open>pd.notna(val)\<close> and \<^verbatim>\<open>isinstance(val, str)\<close> on a cell.\<close>

fun notna :: "cell \<Rightarrow> bool" where
  "notna Missing = False"
| "notna _ = True"

fun isinstance_str :: "cell \<Rightarrow> bool" where
  "isinstance_str (Text s) = True"
| "isinstance_str _ = False"

text \<open>\<^verbatim>\<open>val.strip()\<close>: only a string has the method.\<close>

fun val_strip :: "cell \<Rightarrow> error + pystr" where
  "val_strip (Text s) = Inr (strip s)"
| "val_strip _ = Inl AttributeError"

text \<open>The dictionary appended to \<^verbatim>\<open>candidates\<close>.\<close>

record candidate =
  c_row_id :: pystr
  c_quote :: pystr
  c_source_column :: pystr
  c_length :: nat

text \<open>
  The body of the inner loop for one row and one column: the candidate to append, if any.
  The conjunction of the source is evaluated left to right and stops at the first false
  conjunct, so \<^verbatim>\<open>val.strip()\<close> is reached only behind the two guards.
\<close>

definition candidate_of :: "feedback \<Rightarrow> quote_col \<Rightarrow> error + candidate option" where
  "candidate_of row col =
     (let val = answer row col
      in if notna val \<and> isinstance_str val
         then (case val_strip val of
                 Inl e \<Rightarrow> Inl e
               | Inr s \<Rightarrow>
                   if 20 < length s
                   then Inr (Some \<lparr>c_row_id = row_id row, c_quote = replace_newlines s,
                                    c_source_column = split_first (col_label col),
                                    c_length = length s\<rparr>)
                   else Inr None)
         else Inr None)"

text \<open>The two nested loops, with the list \<^verbatim>\<open>candidates\<close> as accumulator.\<close>

fun scan_cols :: "feedback \<Rightarrow> quote_col list \<Rightarrow> candidate list \<Rightarrow> error + candidate list" where
  "scan_cols row [] candidates = Inr candidates"
| "scan_cols row (col # cols) candidates =
     (case candidate_of row col of
        Inl e \<Rightarrow> Inl e
      | Inr None \<Rightarrow> scan_cols row cols candidates
      | Inr (Some c) \<Rightarrow> scan_cols row cols (candidates @ [c]))"

fun scan_rows :: "feedback list \<Rightarrow> candidate list \<Rightarrow> error + candidate list" where
  "scan_rows [] candidates = Inr candidates"
| "scan_rows (row # rows) candidates =
     (case scan_cols row QUOTE_COLS candidates of
        Inl e \<Rightarrow> Inl e
      | Inr candidates' \<Rightarrow> scan_rows rows candidates')"

text \<open>
  \<^verbatim>\<open>candidates.sort(key=..., reverse=True)\<close>: descending by length; the sort is stable,
  also when reversed, so candidates of equal length keep their order.
\<close>

definition sort_by_length_desc :: "candidate list \<Rightarrow> candidate list" where
  "sort_by_length_desc cs = rev (sort_key c_length (rev cs))"

text \<open>The slice \<^verbatim>\<open>xs[:n]\<close> for an integer \<open>n\<close>; a negative \<open>n\<close> counts from the end.\<close>

definition slice_to :: "'a list \<Rightarrow> int \<Rightarrow> 'a list" where
  "slice_to xs n = (if n < 0 then take (nat (int (length xs) + n)) xs else take (nat n) xs)"

definition extract_best_quotes :: "feedback list \<Rightarrow> pystr \<Rightarrow> int \<Rightarrow> error + candidate list" where
  "extract_best_quotes df trainer' n_quotes =
     (let group' = filter (\<lambda>r. Trainer r = trainer') df
      in case scan_rows group' [] of
           Inl e \<Rightarrow> Inl e
         | Inr candidates \<Rightarrow> Inr (slice_to (sort_by_length_desc candidates) n_quotes))"

section \<open>Outreach drafts: \<^verbatim>\<open>generate_outreach_draft\<close>\<close>

text \<open>An element of \<^verbatim>\<open>evidence_quotes\<close> and the fields of a ranked result that the generator reads.\<close>

record evidence_quote =
  q_row_id :: pystr
  q_quote :: pystr

record ranked_result =
  t_trainer_name :: pystr
  t_n_responses :: int
  t_trainer_score :: pyfloat
  t_overall_avg :: pyfloat
  t_evidence_quotes :: "evidence_quote list"
  t_case_study_angle :: pystr

record draft =
  d_trainer_name :: pystr
  d_trainer_display_name :: pystr
  d_subject :: pystr
  d_body :: pystr
  d_trainer_score :: pyfloat
  d_n_responses :: int
  d_case_study_angle :: pystr
  d_generated_at :: pystr
  d_status :: pystr

text \<open>
  \<^verbatim>\<open>str.title()\<close>: a letter after a cased letter is lowered, any other letter is
  raised. The case mapping is modelled for the ASCII letters; other code points are taken as
  uncased and left as they are, so the model gives the display name of the program for
  names made of ASCII code points only.
\<close>

definition is_upper :: "nat \<Rightarrow> bool" where
  "is_upper c \<longleftrightarrow> 65 \<le> c \<and> c \<le> 90"

definition is_lower :: "nat \<Rightarrow> bool" where
  "is_lower c \<longleftrightarrow> 97 \<le> c \<and> c \<le> 122"

fun title_from :: "bool \<Rightarrow> pystr \<Rightarrow> pystr" where
  "title_from previous_is_cased [] = []"
| "title_from previous_is_cased (c # cs) =
     (if is_upper c then (if previous_is_cased then c + 32 else c) # title_from True cs
      else if is_lower c then (if previous_is_cased then c else c - 32) # title_from True cs
      else c # title_from False cs)"

definition title :: "pystr \<Rightarrow> pystr" where
  "title s = title_from False s"

text \<open>\<^verbatim>\<open>trainer_name.split("@")[0].replace(".", " ").title()\<close>.\<close>

definition display_name :: "pystr \<Rightarrow> pystr" where
  "display_name trainer_name =
     title (map (\<lambda>c. if c = 46 then 32 else c) (takeWhile (\<lambda>c. c \<noteq> 64) trainer_name))"

text \<open>\<^verbatim>\<open>str(n)\<close> for an integer.\<close>

fun digits :: "nat \<Rightarrow> pystr" where
  "digits n = (if n < 10 then [48 + n] else digits (n div 10) @ [48 + n mod 10])"

declare digits.simps [simp del]

definition str_int :: "int \<Rightarrow> pystr" where
  "str_int i = (if i < 0 then 45 # digits (nat (- i)) else digits (nat i))"

text \<open>
  The first evidence quote, or the literal \<^verbatim>\<open>N/A\<close> when the list is empty, and its
  shortening to 200 code points.
\<close>

definition selected_quote :: "ranked_result \<Rightarrow> pystr" where
  "selected_quote trainer' =
     (case t_evidence_quotes trainer' of [] \<Rightarrow> ascii ''N/A'' | e # _ \<Rightarrow> q_quote e)"

definition truncate_quote :: "pystr \<Rightarrow> pystr" where
  "truncate_quote quote = (if 200 < length quote then take 197 quote @ ascii ''...'' else quote)"

text \<open>
  The message body is the f-string of the source, cut at the place of the quote. Code
  points outside ASCII (the bullet 8226, the en dash 8211) and the quote characters are
  written as numbers, a line break is 10.
\<close>

definition body_before :: "pystr \<Rightarrow> pystr \<Rightarrow> pystr \<Rightarrow> pystr" where
  "body_before name avg n =
     ascii ''Hi '' @ name @ ascii '','' @ [10, 10]
     @ ascii ''I hope this message finds you well!'' @ [10, 10]
     @ ascii ''We'' @ [39] @ ascii (''ve been reviewing learner feedback across our trainer ''
         @ ''network, and your name stood out. Your training sessions have received ''
         @ ''consistently strong feedback, with an overall rating of '')
     @ avg @ ascii ''/10 across '' @ n @ ascii '' responses.'' @ [10, 10]
     @ ascii ''Here'' @ [39] @ ascii ''s what one of your learners said:'' @ [10, 10]
     @ ascii ''  '' @ [34]"

definition body_after :: pystr where
  "body_after =
     [34, 10, 10]
     @ ascii ''We'' @ [39] @ ascii (''d love to feature your journey in a short case study to ''
         @ ''inspire other trainers in our network. This would involve either:'') @ [10, 10]
     @ ascii ''  '' @ [8226] @ ascii '' A short testimonial quote (2'' @ [8211]
     @ ascii ''3 sentences, we can draft it for your approval), or'' @ [10]
     @ ascii ''  '' @ [8226] @ ascii '' A 15'' @ [8211]
     @ ascii ''20 minute chat (or written Q&A) for a fuller case study'' @ [10, 10]
     @ ascii (''Would you be open to either of these? ''
         @ ''Happy to work around your schedule.'') @ [10, 10]
     @ ascii ''Thanks for the great work you do!'' @ [10, 10]
     @ ascii ''Best regards,'' @ [10]
     @ ascii ''The Camphire Team''"

definition subject_line :: pystr where
  "subject_line = ascii ''Your learners love your training '' @ [8212]
     @ ascii '' would you share your story?''"

text \<open>
  The generator. Two things come from outside the function and are parameters here: the
  text that Python prints for a float (\<open>str_float\<close>) and the clock reading
  \<^verbatim>\<open>datetime.now().isoformat()\<close> (\<open>now\<close>).
\<close>

definition generate_outreach_draft ::
    "(pyfloat \<Rightarrow> pystr) \<Rightarrow> pystr \<Rightarrow> ranked_result \<Rightarrow> draft" where
  "generate_outreach_draft str_float now trainer' =
     (let name = display_name (t_trainer_name trainer');
          quote = truncate_quote (selected_quote trainer');
          subject = subject_line;
          body = body_before name (str_float (t_overall_avg trainer'))
                   (str_int (t_n_responses trainer')) @ quote @ body_after
      in \<lparr>d_trainer_name = t_trainer_name trainer', d_trainer_display_name = name,
          d_subject = subject, d_body = body, d_trainer_score = t_trainer_score trainer',
          d_n_responses = t_n_responses trainer',
          d_case_study_angle = t_case_study_angle trainer',
          d_generated_at = now, d_status = ascii ''draft''\<rparr>)"

section \<open>Auxiliary notions for the statements\<close>










text \<open>A row in which every free-text cell that is not a string has been emptied.\<close>

definition blank_non_text :: "feedback \<Rightarrow> feedback" where
  "blank_non_text row =
     row\<lparr>answer := (\<lambda>col. if isinstance_str (answer row col) then answer row col else Missing)\<rparr>"

section \<open>Example tables\<close>

text \<open>A response with the same value in every rating column and no free text.\<close>

definition response :: "string \<Rightarrow> string \<Rightarrow> int \<Rightarrow> pyfloat \<Rightarrow> feedback" where
  "response rid t d v =
     \<lparr>row_id = ascii rid, Trainer = ascii t, date = Some d, rating = (\<lambda>_. v),
      answer = (\<lambda>_. Missing)\<rparr>"

text \<open>
  Trainer B with four responses, not in date order in the table: the two earliest rate 6
  in every column, the two latest rate 9.
\<close>

definition example_B :: "feedback list" where
  "example_B =
     [response ''ROW-001'' ''B'' 3 (Some 9), response ''ROW-002'' ''B'' 1 (Some 6),
      response ''ROW-003'' ''B'' 4 (Some 9), response ''ROW-004'' ''B'' 2 (Some 6)]"

definition example_B_row :: score_row where
  "example_B_row =
     \<lparr>trainer = ascii ''B'', n_responses = 4, overall_score = Some (15 / 2),
      early_avg = Some 6, late_avg = Some 9, improvement = Some 3,
      raw_combined = Some (15 / 2), trainer_score = Some (81 / 10)\<rparr>"

text \<open>The same table, but the second response has no value in the first rating column.\<close>

definition example_B_gap :: "feedback list" where
  "example_B_gap =
     [response ''ROW-001'' ''B'' 3 (Some 9),
      (response ''ROW-002'' ''B'' 1 (Some 6))
        \<lparr>rating := (\<lambda>c. if c = R_1_3 then None else Some 6)\<rparr>,
      response ''ROW-003'' ''B'' 4 (Some 9), response ''ROW-004'' ''B'' 2 (Some 6)]"

text \<open>Trainer A rates 8 throughout; trainer B has three responses without any numeric rating.\<close>

definition example_nan :: "feedback list" where
  "example_nan =
     [response ''ROW-001'' ''A'' 1 (Some 8), response ''ROW-002'' ''B'' 1 None,
      response ''ROW-003'' ''A'' 2 (Some 8), response ''ROW-004'' ''B'' 2 None,
      response ''ROW-005'' ''A'' 3 (Some 8), response ''ROW-006'' ''B'' 3 None]"






text \<open>Only two responses, both for trainer A.\<close>

definition example_few :: "feedback list" where
  "example_few = [response ''ROW-001'' ''A'' 1 (Some 8), response ''ROW-002'' ''A'' 2 (Some 7)]"

text \<open>
  Free text: trainer A has two long answers, a short one, a number, a truth value and an
  empty cell; trainer C has only a short answer and a number.
\<close>

definition example_quotes :: "feedback list" where
  "example_quotes =
     [\<lparr>row_id = ascii ''ROW-001'', Trainer = ascii ''A'', date = None, rating = (\<lambda>_. None),
       answer = (\<lambda>c. case c of
                   Q_3_12 \<Rightarrow> Text (ascii ''  She explained everything clearly  '')
                 | Q_3_13 \<Rightarrow> Number 5
                 | Q_2_6 \<Rightarrow> Text (ascii ''short''))\<rparr>,
      \<lparr>row_id = ascii ''ROW-002'', Trainer = ascii ''A'', date = None, rating = (\<lambda>_. None),
       answer = (\<lambda>c. case c of
                   Q_3_12 \<Rightarrow> Missing
                 | Q_3_13 \<Rightarrow> Text (ascii ''The hands-on exercises were the best part of it'')
                 | Q_2_6 \<Rightarrow> Boolean True)\<rparr>,
      \<lparr>row_id = ascii ''ROW-003'', Trainer = ascii ''C'', date = None, rating = (\<lambda>_. None),
       answer = (\<lambda>c. case c of
                   Q_3_12 \<Rightarrow> Text (ascii ''  fine  '')
                 | Q_3_13 \<Rightarrow> Number 7
                 | Q_2_6 \<Rightarrow> Missing)\<rparr>]"

text \<open>A quote of 250 letters, the alphabet over and over.\<close>

definition example_long_quote :: pystr where
  "example_long_quote = map (\<lambda>i. 97 + i mod 26) [0..<250]"

text \<open>A ranked result whose first quote has the given text.\<close>

definition example_result :: "pystr \<Rightarrow> ranked_result" where
  "example_result quote =
     \<lparr>t_trainer_name = ascii ''jane.doe@example.org'', t_n_responses = 4,
      t_trainer_score = Some (81 / 10), t_overall_avg = Some (15 / 2),
      t_evidence_quotes = [\<lparr>q_row_id = ascii ''ROW-001'', q_quote = quote\<rparr>],
      t_case_study_angle = ascii ''Strong overall performance''\<rparr>"

section \<open>Properties of the aggregation\<close>

lemma set_sort_by_score_desc: "set (sort_by_score_desc rows) = set rows"
  by (auto simp: sort_by_score_desc_def)

lemma length_sort_by_date: "length (sort_by_date g) = length g"
proof -
  have "length (filter (\<lambda>r. date r \<noteq> None) g) + length (filter (\<lambda>r. \<not> date r \<noteq> None) g) = length g"
    by (rule sum_length_filter_compl)
  then show ?thesis by (simp add: sort_by_date_def)
qed

lemma mset_filter_compl: "mset (filter P xs) + mset (filter (\<lambda>x. \<not> P x) xs) = mset xs"
  by (induction xs) simp_all

lemma mset_sort_by_date: "mset (sort_by_date g) = mset g"
proof -
  have "mset (filter (\<lambda>r. date r \<noteq> None) g) + mset (filter (\<lambda>r. \<not> date r \<noteq> None) g) = mset g"
    by (rule mset_filter_compl)
  then show ?thesis by (simp add: sort_by_date_def)
qed

lemma results_iff:
  "r \<in> set (results df) \<longleftrightarrow>
     (\<exists>t \<in> Trainer ` set df. MIN_RESPONSES \<le> length (group_of df t) \<and> r = score_group t (group_of df t))"
  by (force simp: results_def groupby_Trainer_def not_less)

lemma compute_rows:
  assumes "compute_trainer_scores df = Inr rows"
  shows "set rows = add_trainer_score ` set (results df)"
  using assms by (auto simp: compute_trainer_scores_def Let_def set_sort_by_score_desc split: if_splits)

lemma trainer_score_group: "trainer (score_group t g) = t"
  by (simp add: score_group_def Let_def)

lemma row_origin:
  assumes "compute_trainer_scores df = Inr rows" "r \<in> set rows"
  shows "MIN_RESPONSES \<le> length (group_of df (trainer r)) \<and>
         r = add_trainer_score (score_group (trainer r) (group_of df (trainer r)))"
proof -
  from compute_rows[OF assms(1)] assms(2) obtain x where x: "x \<in> set (results df)" "r = add_trainer_score x"
    by auto
  from x(1) obtain t where t: "MIN_RESPONSES \<le> length (group_of df t)" "x = score_group t (group_of df t)"
    unfolding results_iff by blast
  have "trainer r = t" using x(2) t(2) by (simp add: add_trainer_score_def trainer_score_group)
  then show ?thesis using x t by simp
qed

text \<open>
  Claim C3. A trainer whose number of completed responses is below the threshold
  \<open>MIN_RESPONSES\<close> does not appear in the ranked output.
\<close>

theorem below_threshold_not_ranked: 
  assumes "compute_trainer_scores df = Inr rows" "length (group_of df t) < MIN_RESPONSES"
  shows "t \<notin> trainer ` set rows"
  using row_origin[OF assms(1)] assms(2) by (auto simp: not_le[symmetric])

subsection \<open>Rounding and the composite score\<close>














lemma results_empty_iff: "results df = [] \<longleftrightarrow> (\<forall>t. length (group_of df t) < MIN_RESPONSES)"
proof
  assume e: "results df = []"
  show "\<forall>t. length (group_of df t) < MIN_RESPONSES"
  proof
    fix t
    show "length (group_of df t) < MIN_RESPONSES"
    proof (cases "t \<in> Trainer ` set df")
      case True
      then show ?thesis using e results_iff[of "score_group t (group_of df t)" df] by (auto simp: not_le[symmetric])
    next
      case False
      then have "group_of df t = []" by (auto simp: group_of_def filter_empty_conv)
      then show ?thesis by (simp add: MIN_RESPONSES_def)
    qed
  qed
next
  assume a: "\<forall>t. length (group_of df t) < MIN_RESPONSES"
  have "r \<notin> set (results df)" for r
    using a by (auto simp: results_iff not_le)
  then show "results df = []" by (metis list.set_intros(1) neq_Nil_conv)
qed

text \<open>
  Claim C7. The scoring stage exits with status 1 exactly when no trainer reaches the
  threshold, and it never returns an empty ranking.
\<close>

theorem no_trainer_is_fatal:
  "(compute_trainer_scores df = Inl (SystemExit 1) \<longleftrightarrow> (\<forall>t. length (group_of df t) < MIN_RESPONSES))
   \<and> compute_trainer_scores df \<noteq> Inr []"
proof -
  have "sort_by_score_desc (map add_trainer_score (results df)) \<noteq> []" if "results df \<noteq> []"
  proof -
    have "set (sort_by_score_desc (map add_trainer_score (results df))) \<noteq> {}"
      using that by (simp add: set_sort_by_score_desc)
    then show ?thesis by auto
  qed
  then show ?thesis
    by (auto simp: compute_trainer_scores_def Let_def results_empty_iff[symmetric])
qed


lemma sorted_wrt_all_right: "(\<forall>y \<in> set xs. Q y) \<Longrightarrow> sorted_wrt (\<lambda>x y. Q y) xs"
  by (induction xs) auto

lemma sort_by_score_desc_successively:
  "successively (\<lambda>a b. fge a b \<or> b = None) (map trainer_score (sort_by_score_desc rows))"
proof -
  define P where "P = (\<lambda>(x::score_row) (y::score_row). fge (trainer_score x) (trainer_score y) \<or> trainer_score y = None)"
  define S where "S = filter (\<lambda>r. trainer_score r \<noteq> None) rows"
  define N where "N = filter (\<lambda>r. trainer_score r = None) rows"
  define k where "k = (\<lambda>r :: score_row. the (trainer_score r))"
  define A where "A = rev (sort_key k (rev S))"
  have setA: "set A = set S" by (simp add: A_def)
  have "sorted (map k (sort_key k (rev S)))" by (rule sorted_sort_key)
  then have "sorted_wrt (\<lambda>x y. k x \<le> k y) (sort_key k (rev S))"
    by (simp only: sorted_map)
  then have "sorted_wrt (\<lambda>x y. k y \<le> k x) A"
    by (simp only: A_def sorted_wrt_rev)
  moreover have "P x y" if "x \<in> set A" "y \<in> set A" "k y \<le> k x" for x y
  proof -
    from that(1,2) have "trainer_score x \<noteq> None" "trainer_score y \<noteq> None"
      by (simp_all add: setA S_def)
    then show ?thesis using that(3) by (auto simp: P_def fge_def k_def)
  qed
  ultimately have "sorted_wrt P A" by (rule sorted_wrt_mono_rel[rotated])
  then have sA: "successively P A" by (rule successively_if_sorted_wrt)
  have "\<forall>y \<in> set N. trainer_score y = None" by (simp add: N_def)
  then have "sorted_wrt (\<lambda>x y. trainer_score y = None) N" by (rule sorted_wrt_all_right)
  then have "sorted_wrt P N" by (rule sorted_wrt_mono_rel[rotated]) (simp add: P_def)
  then have sN: "successively P N" by (rule successively_if_sorted_wrt)
  have join: "P (last A) (hd N)" if "N \<noteq> []"
  proof -
    have "hd N \<in> set N" using that by simp
    then have "trainer_score (hd N) = None" by (simp add: N_def)
    then show ?thesis by (simp add: P_def)
  qed
  have "successively P (A @ N)"
    using sA sN join by (auto simp: successively_append_iff)
  then have "successively P (sort_by_score_desc rows)"
    by (simp only: sort_by_score_desc_def A_def N_def S_def k_def)
  then show ?thesis
    by (simp only: successively_map P_def)
qed

text \<open>
  Claim C4, amended. The ranked list is sorted non-increasing by composite score among the
  rows whose score is a number, and the rows whose score is NaN come after all of them: for
  every pair of adjacent rows, the earlier score is greater than or equal to the later one,
  or the later score is NaN.
\<close>

theorem ranked_sorted_numeric_first:
  assumes "compute_trainer_scores df = Inr rows"
  shows "successively (\<lambda>a b. fge a b \<or> b = None) (map trainer_score rows)"
proof -
  from assms have "rows = sort_by_score_desc (map add_trainer_score (results df))"
    by (simp add: compute_trainer_scores_def Let_def split: if_splits)
  then show ?thesis by (simp only: sort_by_score_desc_successively)
qed

subsection \<open>The mean of means and the columns without observations\<close>






subsection \<open>The worked example: four responses, halves averaging 6 and 9\<close>

lemma round2_values:
  "round2 6 = 6" "round2 9 = 9" "round2 3 = 3" "round2 (15 / 2) = 15 / 2"
  "round2 (81 / 10) = 81 / 10"
  by (simp_all add: round2_def round_half_even_def Let_def)

lemma observed_complete:
  "\<forall>r \<in> set g. rating r c \<noteq> None \<Longrightarrow>
     observed (map (\<lambda>r. rating r c) g) = map (\<lambda>r. the (rating r c)) g"
  by (induction g) (auto simp: observed_def map_filter_simps)

lemma mean_of_means_complete:
  assumes "g \<noteq> []" "\<forall>r \<in> set g. \<forall>c. rating r c \<noteq> None"
  shows "mean_of_means g
           = Some ((\<Sum>c\<leftarrow>RATING_COLS. \<Sum>r\<leftarrow>g. the (rating r c)) / real (length g) / 6)"
proof -
  have col: "nanmean (map (\<lambda>r. rating r c) g)
               = Some ((\<Sum>r\<leftarrow>g. the (rating r c)) / real (length g))" for c
    using assms by (simp add: nanmean_def observed_complete Let_def)
  have "column_means g
          = map (\<lambda>c. Some ((\<Sum>r\<leftarrow>g. the (rating r c)) / real (length g))) RATING_COLS"
    by (simp only: column_means_def col)
  then show ?thesis
    by (simp add: mean_of_means_def RATING_COLS_def nanmean_def
          observed_def map_filter_simps Let_def add_divide_distrib)
qed

lemma total_perm:
  assumes "mset xs = mset ys"
  shows "(\<Sum>c\<leftarrow>cs. \<Sum>r\<leftarrow>xs. (f r c :: real)) = (\<Sum>c\<leftarrow>cs. \<Sum>r\<leftarrow>ys. f r c)"
proof -
  have "(\<Sum>r\<leftarrow>xs. f r c) = (\<Sum>r\<leftarrow>ys. f r c)" for c
    using assms by (metis mset_map sum_mset_sum_list)
  then show ?thesis by simp
qed

lemma total_append:
  "(\<Sum>c\<leftarrow>cs. \<Sum>r\<leftarrow>xs @ ys. (f r c :: real))
     = (\<Sum>c\<leftarrow>cs. \<Sum>r\<leftarrow>xs. f r c) + (\<Sum>c\<leftarrow>cs. \<Sum>r\<leftarrow>ys. f r c)"
  by (simp add: sum_list_addf)

lemma overall_of_halves:
  assumes g4: "length g = 4"
      and early: "mean_of_means (take 2 (sort_by_date g)) = Some 6"
      and late: "mean_of_means (drop 2 (sort_by_date g)) = Some 9"
      and complete: "\<forall>r \<in> set g. \<forall>c. rating r c \<noteq> None"
  shows "mean_of_means g = Some (15 / 2)"
proof -
  define s where "s = sort_by_date g"
  define T where "T = (\<lambda>xs :: feedback list. \<Sum>c\<leftarrow>RATING_COLS. \<Sum>r\<leftarrow>xs. the (rating r c))"
  have ms: "mset s = mset g" by (simp add: s_def mset_sort_by_date)
  then have sets: "set s = set g" by (rule mset_eq_setD)
  have s4: "length s = 4" by (simp add: s_def length_sort_by_date g4)
  have ce: "\<forall>r \<in> set (take 2 s). \<forall>c. rating r c \<noteq> None"
    using complete sets by (auto dest: in_set_takeD)
  have cl: "\<forall>r \<in> set (drop 2 s). \<forall>c. rating r c \<noteq> None"
    using complete sets by (auto dest: in_set_dropD)
  have "take 2 s \<noteq> []" "length (take 2 s) = 2" using s4 by auto
  from mean_of_means_complete[OF this(1) ce] this(2) early
  have e: "T (take 2 s) = 72" by (simp add: T_def s_def)
  have "drop 2 s \<noteq> []" "length (drop 2 s) = 2" using s4 by auto
  from mean_of_means_complete[OF this(1) cl] this(2) late
  have l: "T (drop 2 s) = 108" by (simp add: T_def s_def)
  have "T g = T s" unfolding T_def by (rule total_perm) (simp add: ms)
  also have "\<dots> = T (take 2 s @ drop 2 s)" by simp
  also have "\<dots> = T (take 2 s) + T (drop 2 s)" unfolding T_def by (rule total_append)
  finally have t: "T g = 180" by (simp add: e l)
  have "g \<noteq> []" using g4 by auto
  then have "mean_of_means g = Some (T g / real (length g) / 6)"
    unfolding T_def using complete by (rule mean_of_means_complete)
  then show ?thesis by (simp add: t g4)
qed

text \<open>
  Claim C2, amended. When a trainer has exactly four completed responses, the two earliest
  by date have rating mean 6.0 and the two latest have rating mean 9.0, the scoring stage
  returns a ranking with a row for the trainer, and every such row has
  \<open>n_responses = 4\<close>, \<open>early_avg = 6.0\<close>, \<open>late_avg = 9.0\<close> and \<open>improvement = 3.0\<close>. When in
  addition every rating column has a value in each of the four responses, the row has
  \<open>overall_score = 7.5\<close> and \<open>trainer_score = 8.1\<close>, the value of \<^verbatim>\<open>round(0.6*7.5 + 0.4*9.0, 2)\<close>.
\<close>

theorem four_responses_example:
  assumes len: "length (group_of df t) = 4"
      and early: "mean_of_means (take 2 (sort_by_date (group_of df t))) = Some 6"
      and late: "mean_of_means (drop 2 (sort_by_date (group_of df t))) = Some 9"
  shows "\<exists>rows. compute_trainer_scores df = Inr rows
          \<and> (\<exists>row \<in> set rows. trainer row = t)
          \<and> (\<forall>row \<in> set rows. trainer row = t \<longrightarrow>
               n_responses row = 4 \<and> early_avg row = Some 6 \<and> late_avg row = Some 9
               \<and> improvement row = Some 3
               \<and> ((\<forall>r \<in> set (group_of df t). \<forall>c. rating r c \<noteq> None) \<longrightarrow>
                    overall_score row = Some (15 / 2) \<and> trainer_score row = Some (81 / 10)))"
proof -
  define g where "g = group_of df t"
  define x where "x = score_group t g"
  define rows where "rows = sort_by_score_desc (map add_trainer_score (results df))"
  have g4: "length g = 4" by (simp add: g_def len)
  then obtain r0 where "r0 \<in> set g" by (cases g) auto
  then have tin: "t \<in> Trainer ` set df" by (auto simp: g_def group_of_def)
  have "MIN_RESPONSES \<le> length (group_of df t) \<and> x = score_group t (group_of df t)"
    using g4 by (simp add: x_def g_def MIN_RESPONSES_def)
  with tin have xin: "x \<in> set (results df)"
    unfolding results_iff by (rule bexI[rotated])
  then have "results df \<noteq> []" by auto
  then have c: "compute_trainer_scores df = Inr rows"
    by (simp add: compute_trainer_scores_def Let_def rows_def)
  have ex: "add_trainer_score x \<in> set rows"
    using xin by (simp add: rows_def set_sort_by_score_desc)
  have tx: "trainer (add_trainer_score x) = t"
    by (simp add: add_trainer_score_def x_def trainer_score_group)
  have fields: "n_responses x = 4" "early_avg x = Some 6" "late_avg x = Some 9"
    "improvement x = Some 3" "overall_score x = fround2 (mean_of_means g)"
    using early late
    by (simp_all add: x_def score_group_def Let_def length_sort_by_date g4 g_def[symmetric]
          fround2_def fsub_def round2_values)
  have props: "n_responses row = 4 \<and> early_avg row = Some 6 \<and> late_avg row = Some 9
               \<and> improvement row = Some 3
               \<and> ((\<forall>r \<in> set (group_of df t). \<forall>c. rating r c \<noteq> None) \<longrightarrow>
                    overall_score row = Some (15 / 2) \<and> trainer_score row = Some (81 / 10))"
    if row: "row \<in> set rows" "trainer row = t" for row
  proof -
    from row_origin[OF c row(1)] row(2) have rx: "row = add_trainer_score x"
      by (simp add: x_def g_def)
    have basic: "n_responses row = 4" "early_avg row = Some 6" "late_avg row = Some 9"
      "improvement row = Some 3"
      by (simp_all add: rx add_trainer_score_def fields(1-4))
    have "overall_score row = Some (15 / 2) \<and> trainer_score row = Some (81 / 10)"
      if "\<forall>r \<in> set (group_of df t). \<forall>c. rating r c \<noteq> None"
    proof -
      from that have "\<forall>r \<in> set g. \<forall>c. rating r c \<noteq> None" by (simp add: g_def)
      from overall_of_halves[OF g4 early[folded g_def] late[folded g_def] this]
      have o: "overall_score x = Some (15 / 2)"
        by (simp add: fields(5) fround2_def round2_values)
      have "trainer_score row
              = fround2 (fadd (fscale (6 / 10) (overall_score x)) (fscale (4 / 10) (late_avg x)))"
        by (simp add: rx add_trainer_score_def)
      also have "\<dots> = Some (round2 (81 / 10))"
        by (simp add: o fields(3) fround2_def fadd_def fscale_def)
      finally have "trainer_score row = Some (81 / 10)" by (simp only: round2_values)
      moreover have "overall_score row = Some (15 / 2)"
        by (simp add: rx add_trainer_score_def o)
      ultimately show ?thesis by simp
    qed
    with basic show ?thesis by blast
  qed
  from c ex tx props show ?thesis by blast
qed

section \<open>Properties of the extraction and of the outreach drafts\<close>

lemma candidate_of_cases:
  "candidate_of row col = Inr None \<or>
   (\<exists>s. answer row col = Text s \<and> 20 < length (strip s) \<and>
        candidate_of row col =
          Inr (Some \<lparr>c_row_id = row_id row, c_quote = replace_newlines (strip s),
                     c_source_column = split_first (col_label col),
                     c_length = length (strip s)\<rparr>))"
  by (cases "answer row col") (simp_all add: candidate_of_def Let_def)

lemma scan_cols_inv:
  assumes "\<And>col c. col \<in> set cols \<Longrightarrow> candidate_of row col = Inr (Some c) \<Longrightarrow> P c"
  shows "\<exists>cs. scan_cols row cols cands = Inr (cands @ cs) \<and> (\<forall>c \<in> set cs. P c)"
  using assms
proof (induction cols arbitrary: cands)
  case Nil
  then show ?case by simp
next
  case (Cons col cols)
  have IH: "\<exists>cs. scan_cols row cols cands' = Inr (cands' @ cs) \<and> (\<forall>c \<in> set cs. P c)" for cands'
  proof (rule Cons.IH)
    fix col' c assume "col' \<in> set cols" "candidate_of row col' = Inr (Some c)"
    then show "P c" using Cons.prems[of col' c] by simp
  qed
  from candidate_of_cases[of row col] show ?case
  proof
    assume n: "candidate_of row col = Inr None"
    from IH[of cands] show ?thesis by (simp add: n)
  next
    assume "\<exists>s. answer row col = Text s \<and> 20 < length (strip s) \<and>
        candidate_of row col =
          Inr (Some \<lparr>c_row_id = row_id row, c_quote = replace_newlines (strip s),
                     c_source_column = split_first (col_label col),
                     c_length = length (strip s)\<rparr>)"
    then obtain c where c: "candidate_of row col = Inr (Some c)" by blast
    then have Pc: "P c" using Cons.prems[of col c] by simp
    from IH[of "cands @ [c]"] obtain cs where
      cs: "scan_cols row cols (cands @ [c]) = Inr ((cands @ [c]) @ cs)" "\<forall>c \<in> set cs. P c"
      by blast
    have "scan_cols row (col # cols) cands = Inr (cands @ (c # cs))"
      using c cs(1) by simp
    moreover have "\<forall>x \<in> set (c # cs). P x" using Pc cs(2) by simp
    ultimately show ?thesis by blast
  qed
qed

lemma scan_rows_inv:
  assumes "\<And>row col c. row \<in> set rows \<Longrightarrow> col \<in> set QUOTE_COLS \<Longrightarrow>
             candidate_of row col = Inr (Some c) \<Longrightarrow> P c"
  shows "\<exists>cs. scan_rows rows cands = Inr (cands @ cs) \<and> (\<forall>c \<in> set cs. P c)"
  using assms
proof (induction rows arbitrary: cands)
  case Nil
  then show ?case by simp
next
  case (Cons row rows)
  have IH: "\<exists>cs. scan_rows rows cands' = Inr (cands' @ cs) \<and> (\<forall>c \<in> set cs. P c)" for cands'
  proof (rule Cons.IH)
    fix row' col c
    assume "row' \<in> set rows" "col \<in> set QUOTE_COLS" "candidate_of row' col = Inr (Some c)"
    then show "P c" using Cons.prems[of row' col c] by simp
  qed
  have "\<exists>cs. scan_cols row QUOTE_COLS cands = Inr (cands @ cs) \<and> (\<forall>c \<in> set cs. P c)"
  proof (rule scan_cols_inv)
    fix col c assume "col \<in> set QUOTE_COLS" "candidate_of row col = Inr (Some c)"
    then show "P c" using Cons.prems[of row col c] by simp
  qed
  then obtain cs1 where cs1: "scan_cols row QUOTE_COLS cands = Inr (cands @ cs1)" "\<forall>c \<in> set cs1. P c"
    by blast
  from IH[of "cands @ cs1"] obtain cs2 where
    cs2: "scan_rows rows (cands @ cs1) = Inr ((cands @ cs1) @ cs2)" "\<forall>c \<in> set cs2. P c"
    by blast
  have "scan_rows (row # rows) cands = Inr (cands @ (cs1 @ cs2))"
    using cs1(1) cs2(1) by simp
  moreover have "\<forall>c \<in> set (cs1 @ cs2). P c" using cs1(2) cs2(2) by auto
  ultimately show ?case by blast
qed

lemma set_slice_to: "set (slice_to xs n) \<subseteq> set xs"
  by (auto simp: slice_to_def dest: in_set_takeD)

lemma sorted_slice_to: "sorted_wrt R xs \<Longrightarrow> sorted_wrt R (slice_to xs n)"
  by (simp add: slice_to_def sorted_wrt_take)

lemma length_slice_to_nat: "length (slice_to xs (int N)) \<le> N"
  by (simp add: slice_to_def)

lemma sorted_sort_by_length_desc:
  "sorted_wrt (\<lambda>a b. c_length b \<le> c_length a) (sort_by_length_desc cs)"
proof -
  have "sorted (map c_length (sort_key c_length (rev cs)))" by (rule sorted_sort_key)
  then have "sorted_wrt (\<lambda>x y. c_length x \<le> c_length y) (sort_key c_length (rev cs))"
    by (simp only: sorted_map)
  then show ?thesis by (simp only: sort_by_length_desc_def sorted_wrt_rev)
qed

lemma set_sort_by_length_desc: "set (sort_by_length_desc cs) = set cs"
  by (simp add: sort_by_length_desc_def)

lemma length_replace_newlines: "length (replace_newlines s) = length s"
  by (simp add: replace_newlines_def)

text \<open>
  Claim C5. For every table, trainer and requested number \<open>N\<close> of quotes, the extraction
  returns a list (no error); every quote in it comes from a text cell of the trainer whose
  stripped length exceeds 20 and which is the length recorded with the quote; the list is
  sorted by descending length; it has at most \<open>N\<close> elements; and it is empty when the
  trainer has no text cell of stripped length above 20.
\<close>

theorem extract_best_quotes_spec:
  "\<exists>qs. extract_best_quotes df t (int N) = Inr qs
      \<and> (\<forall>q \<in> set qs. 20 < c_length q \<and> length (c_quote q) = c_length q
            \<and> (\<exists>row \<in> set df. \<exists>col \<in> set QUOTE_COLS. \<exists>s.
                  Trainer row = t \<and> answer row col = Text s
                  \<and> c_quote q = replace_newlines (strip s) \<and> c_length q = length (strip s)))
      \<and> sorted_wrt (\<lambda>a b. c_length b \<le> c_length a) qs
      \<and> length qs \<le> N
      \<and> ((\<forall>row \<in> set df. Trainer row = t \<longrightarrow>
             (\<forall>col s. answer row col = Text s \<longrightarrow> length (strip s) \<le> 20)) \<longrightarrow> qs = [])"
proof -
  define P where "P = (\<lambda>q::candidate. 20 < c_length q \<and> length (c_quote q) = c_length q
            \<and> (\<exists>row \<in> set df. \<exists>col \<in> set QUOTE_COLS. \<exists>s.
                  Trainer row = t \<and> answer row col = Text s
                  \<and> c_quote q = replace_newlines (strip s) \<and> c_length q = length (strip s)))"
  define g where "g = filter (\<lambda>r. Trainer r = t) df"
  have step: "P c" if "row \<in> set g" "col \<in> set QUOTE_COLS" "candidate_of row col = Inr (Some c)"
    for row col c
  proof -
    from candidate_of_cases[of row col] that(3) obtain s where
      s: "answer row col = Text s" "20 < length (strip s)"
         "c = \<lparr>c_row_id = row_id row, c_quote = replace_newlines (strip s),
                     c_source_column = split_first (col_label col),
                     c_length = length (strip s)\<rparr>"
      by auto
    have "row \<in> set df" "Trainer row = t" using that(1) by (simp_all add: g_def)
    then show ?thesis
      unfolding P_def using s that(2) by (auto simp: length_replace_newlines)
  qed
  have "\<exists>cs. scan_rows g [] = Inr ([] @ cs) \<and> (\<forall>c \<in> set cs. P c)"
    by (rule scan_rows_inv) (rule step)
  then obtain cs where cs: "scan_rows g [] = Inr cs" "\<forall>c \<in> set cs. P c" by auto
  define qs where "qs = slice_to (sort_by_length_desc cs) (int N)"
  have res: "extract_best_quotes df t (int N) = Inr qs"
    using cs(1) by (simp add: extract_best_quotes_def g_def qs_def)
  have sub: "set qs \<subseteq> set cs"
    using set_slice_to[of "sort_by_length_desc cs" "int N"]
    by (simp add: qs_def set_sort_by_length_desc)
  have allP: "\<forall>q \<in> set qs. P q" using sub cs(2) by blast
  have srt: "sorted_wrt (\<lambda>a b. c_length b \<le> c_length a) qs"
    unfolding qs_def by (rule sorted_slice_to) (rule sorted_sort_by_length_desc)
  have len: "length qs \<le> N" unfolding qs_def by (rule length_slice_to_nat)
  have empty: "qs = []"
    if none: "\<forall>row \<in> set df. Trainer row = t \<longrightarrow>
             (\<forall>col s. answer row col = Text s \<longrightarrow> length (strip s) \<le> 20)"
  proof (rule ccontr)
    assume "qs \<noteq> []"
    then obtain q where "q \<in> set qs" by (cases qs) auto
    with allP have "P q" by blast
    then obtain row col s where "row \<in> set df" "Trainer row = t" "answer row col = Text s"
      "c_length q = length (strip s)" "20 < c_length q"
      unfolding P_def by blast
    with none show False by fastforce
  qed
  show ?thesis
    using res allP srt len empty unfolding P_def by blast
qed

lemma candidate_of_blank: "candidate_of (blank_non_text row) col = candidate_of row col"
  by (cases "answer row col") (simp_all add: candidate_of_def blank_non_text_def Let_def)

lemma scan_cols_blank: "scan_cols (blank_non_text row) cols cands = scan_cols row cols cands"
  by (induction cols arbitrary: cands)
     (simp_all add: candidate_of_blank split: sum.splits option.splits)

lemma scan_rows_blank: "scan_rows (map blank_non_text rows) cands = scan_rows rows cands"
  by (induction rows arbitrary: cands)
     (simp_all add: scan_cols_blank split: sum.splits)

lemma filter_blank:
  "filter (\<lambda>r. Trainer r = t) (map blank_non_text df) = map blank_non_text (filter (\<lambda>r. Trainer r = t) df)"
  by (induction df) (simp_all add: blank_non_text_def)

text \<open>
  Claim C9. The extraction returns a list for every table, trainer and count, whatever the
  free-text cells hold, and cells that are missing or not strings are skipped: emptying all
  of them leaves the result unchanged.
\<close>

theorem extract_best_quotes_total:
  "(\<exists>qs. extract_best_quotes df t n = Inr qs)
   \<and> extract_best_quotes (map blank_non_text df) t n = extract_best_quotes df t n"
proof -
  have "\<exists>cs. scan_rows (filter (\<lambda>r. Trainer r = t) df) [] = Inr ([] @ cs) \<and> (\<forall>c \<in> set cs. True)"
    by (rule scan_rows_inv) simp
  then have "\<exists>qs. extract_best_quotes df t n = Inr qs"
    by (auto simp: extract_best_quotes_def)
  moreover have "extract_best_quotes (map blank_non_text df) t n = extract_best_quotes df t n"
    by (simp add: extract_best_quotes_def filter_blank scan_rows_blank)
  ultimately show ?thesis by blast
qed

text \<open>
  Claim C6. A selected quote of at most 200 code points stands in the message body as it
  is, between the opening of the template (with the display name that the draft records)
  and its closing. A longer quote is truncated and marked: the body holds its first 197
  code points followed by the marker \<^verbatim>\<open>...\<close>, a proper prefix of the quote and 200 code
  points together with the marker.
\<close>

theorem outreach_quote_embedding:
  fixes trainer' :: ranked_result and str_float :: "pyfloat \<Rightarrow> pystr" and now :: pystr
  defines "q \<equiv> selected_quote trainer'"
  defines "out \<equiv> generate_outreach_draft str_float now trainer'"
  defines "before \<equiv> body_before (d_trainer_display_name out)
                      (str_float (t_overall_avg trainer')) (str_int (t_n_responses trainer'))"
  shows "(length q \<le> 200 \<longrightarrow> d_body out = before @ q @ body_after)
       \<and> (200 < length q \<longrightarrow>
            d_body out = before @ (take 197 q @ ascii ''...'') @ body_after
            \<and> length (take 197 q) < length q
            \<and> length (take 197 q @ ascii ''...'') = 200)"
proof -
  have b: "d_body out = before @ truncate_quote q @ body_after"
    by (simp add: out_def before_def q_def generate_outreach_draft_def Let_def)
  have "d_body out = before @ q @ body_after" if "length q \<le> 200"
    using that b by (simp add: truncate_quote_def)
  moreover have "d_body out = before @ (take 197 q @ ascii ''...'') @ body_after
            \<and> length (take 197 q) < length q
            \<and> length (take 197 q @ ascii ''...'') = 200"
    if "200 < length q"
    using that b by (simp add: truncate_quote_def ascii_def)
  ultimately show ?thesis by blast
qed

text \<open>
  Claim C10. A selected quote of more than 200 code points is embedded as its first 197
  code points followed by three full stops (code point 46), 200 code points in all.
\<close>

theorem truncated_quote_has_200:
  assumes "200 < length (selected_quote trainer')"
  shows "truncate_quote (selected_quote trainer') = take 197 (selected_quote trainer') @ [46, 46, 46]
       \<and> length (truncate_quote (selected_quote trainer')) = 200
       \<and> d_body (generate_outreach_draft str_float now trainer') =
           body_before (display_name (t_trainer_name trainer'))
             (str_float (t_overall_avg trainer')) (str_int (t_n_responses trainer'))
           @ truncate_quote (selected_quote trainer') @ body_after"
  using assms by (simp add: truncate_quote_def ascii_def generate_outreach_draft_def Let_def)

section \<open>The statements at the example tables\<close>

lemma example_B_scores: "compute_trainer_scores example_B = Inr [example_B_row]"
  by code_simp



text \<open>
  Claim C2 as stated fails. In \<open>example_B\<close> trainer B has four responses whose halves
  average 6 and 9, and the composite score is 8.1, not 9.0: \<^verbatim>\<open>round(0.6*7.5 + 0.4*9.0, 2)\<close>
  is 8.1. In \<open>example_B_gap\<close> the halves average 6 and 9 as well, but one rating is
  missing, and the overall mean is 7.58 instead of 7.5.
\<close>

theorem four_responses_counterexample:
  "length (group_of example_B (ascii ''B'')) = 4
   \<and> mean_of_means (take 2 (sort_by_date (group_of example_B (ascii ''B'')))) = Some 6
   \<and> mean_of_means (drop 2 (sort_by_date (group_of example_B (ascii ''B'')))) = Some 9
   \<and> \<not> isl (compute_trainer_scores example_B)
   \<and> map trainer_score (projr (compute_trainer_scores example_B)) = [Some (81 / 10)]
   \<and> map trainer_score (projr (compute_trainer_scores example_B)) \<noteq> [Some 9]
   \<and> round2 (6 / 10 * (15 / 2) + 4 / 10 * 9) \<noteq> 9
   \<and> length (group_of example_B_gap (ascii ''B'')) = 4
   \<and> mean_of_means (take 2 (sort_by_date (group_of example_B_gap (ascii ''B'')))) = Some 6
   \<and> mean_of_means (drop 2 (sort_by_date (group_of example_B_gap (ascii ''B'')))) = Some 9
   \<and> \<not> isl (compute_trainer_scores example_B_gap)
   \<and> map overall_score (projr (compute_trainer_scores example_B_gap)) = [Some (379 / 50)]
   \<and> map trainer_score (projr (compute_trainer_scores example_B_gap)) = [Some (163 / 20)]"
  by code_simp

theorem four_responses_example_witness:
  "length (group_of example_B (ascii ''B'')) = 4
   \<and> mean_of_means (take 2 (sort_by_date (group_of example_B (ascii ''B'')))) = Some 6
   \<and> mean_of_means (drop 2 (sort_by_date (group_of example_B (ascii ''B'')))) = Some 9
   \<and> compute_trainer_scores example_B = Inr [example_B_row]
   \<and> n_responses example_B_row = 4 \<and> early_avg example_B_row = Some 6
   \<and> late_avg example_B_row = Some 9 \<and> improvement example_B_row = Some 3
   \<and> overall_score example_B_row = Some (15 / 2)
   \<and> trainer_score example_B_row = Some (81 / 10)"
proof -
  have n: "length (group_of example_B (ascii ''B'')) = 4" by code_simp
  have e: "mean_of_means (take 2 (sort_by_date (group_of example_B (ascii ''B'')))) = Some 6"
    by code_simp
  have l: "mean_of_means (drop 2 (sort_by_date (group_of example_B (ascii ''B'')))) = Some 9"
    by code_simp
  have t: "trainer example_B_row = ascii ''B''" by (simp add: example_B_row_def)
  have a: "\<forall>r \<in> set (group_of example_B (ascii ''B'')). \<forall>c. rating r c \<noteq> None"
    by (simp add: group_of_def example_B_def response_def)
  from four_responses_example [OF n e l] a t
  have "n_responses example_B_row = 4 \<and> early_avg example_B_row = Some 6
   \<and> late_avg example_B_row = Some 9 \<and> improvement example_B_row = Some 3
   \<and> overall_score example_B_row = Some (15 / 2)
   \<and> trainer_score example_B_row = Some (81 / 10)"
    by (auto simp only: example_B_scores sum.inject list.set_intros)
  with n e l show ?thesis by (simp only: example_B_scores simp_thms)
qed

lemma example_nan_scores:
  "map trainer_score (projr (compute_trainer_scores example_nan)) = [Some 8, None]"
  by code_simp

text \<open>
  Claim C4 as stated fails: in the ranking of \<open>example_nan\<close> the score 8 of trainer A is
  followed by the NaN score of trainer B, and \<^verbatim>\<open>8 >= NaN\<close> is false.
\<close>

theorem ranked_sorted_counterexample:
  "\<not> isl (compute_trainer_scores example_nan)
   \<and> \<not> successively fge (map trainer_score (projr (compute_trainer_scores example_nan)))"
  by code_simp

theorem ranked_sorted_numeric_first_witness:
  "successively (\<lambda>a b. fge a b \<or> b = None) [Some 8, None]"
proof -
  have "\<not> isl (compute_trainer_scores example_nan)" by code_simp
  then have r: "compute_trainer_scores example_nan
                  = Inr (projr (compute_trainer_scores example_nan))" by simp
  from ranked_sorted_numeric_first [OF r] show ?thesis by (simp only: example_nan_scores)
qed

theorem below_threshold_not_ranked_witness:
  "ascii ''A'' \<notin> trainer ` set [example_B_row]"
proof -
  have s: "compute_trainer_scores (example_B @ example_few) = Inr [example_B_row]" by code_simp
  have l: "length (group_of (example_B @ example_few) (ascii ''A'')) < MIN_RESPONSES" by code_simp
  from below_threshold_not_ranked [OF s l] show ?thesis .
qed

theorem no_trainer_is_fatal_witness:
  "compute_trainer_scores example_few = Inl (SystemExit 1)
   \<and> (\<forall>t. length (group_of example_few t) < MIN_RESPONSES)"
proof -
  have "compute_trainer_scores example_few = Inl (SystemExit 1)" by code_simp
  with no_trainer_is_fatal [of example_few] show ?thesis by simp
qed



lemma example_quotes_A:
  "map c_length (projr (extract_best_quotes example_quotes (ascii ''A'') (int 2))) = [47, 32]"
  by code_simp

theorem extract_best_quotes_spec_witness:
  "map c_length (projr (extract_best_quotes example_quotes (ascii ''A'') (int 2))) = [47, 32]
   \<and> list_all (\<lambda>q. 20 < c_length q \<and> length (c_quote q) = c_length q)
         (projr (extract_best_quotes example_quotes (ascii ''A'') (int 2)))
   \<and> extract_best_quotes example_quotes (ascii ''C'') (int 2) = Inr []"
proof -
  from extract_best_quotes_spec [of example_quotes "ascii ''A''" 2]
  have a: "list_all (\<lambda>q. 20 < c_length q \<and> length (c_quote q) = c_length q)
         (projr (extract_best_quotes example_quotes (ascii ''A'') (int 2)))"
    by (auto simp: list_all_iff)
  have short: "\<forall>row \<in> set example_quotes. Trainer row = ascii ''C'' \<longrightarrow>
             (\<forall>col s. answer row col = Text s \<longrightarrow> length (strip s) \<le> 20)"
  proof (intro ballI impI allI)
    fix row col s
    assume "row \<in> set example_quotes" "Trainer row = ascii ''C''" "answer row col = Text s"
    then have "s = ascii ''  fine  ''"
      by (cases col) (auto simp: example_quotes_def ascii_def)
    moreover have "length (strip (ascii ''  fine  '')) \<le> 20" by code_simp
    ultimately show "length (strip s) \<le> 20" by simp
  qed
  from extract_best_quotes_spec [of example_quotes "ascii ''C''" 2] short
  have c: "extract_best_quotes example_quotes (ascii ''C'') (int 2) = Inr []"
    by auto
  from example_quotes_A a c show ?thesis by blast
qed

theorem extract_best_quotes_total_witness:
  "extract_best_quotes (map blank_non_text example_quotes) (ascii ''A'') (-1)
     = extract_best_quotes example_quotes (ascii ''A'') (-1)
   \<and> map c_length (projr (extract_best_quotes example_quotes (ascii ''A'') (-1))) = [47]"
proof -
  have "map c_length (projr (extract_best_quotes example_quotes (ascii ''A'') (-1))) = [47]"
    by code_simp
  with extract_best_quotes_total [of example_quotes "ascii ''A''" "-1"] show ?thesis by simp
qed

theorem outreach_quote_embedding_witness:
  "d_body (generate_outreach_draft (\<lambda>_. ascii ''7.5'') (ascii ''2026-01-01T00:00:00'')
             (example_result (ascii ''Great trainer'')))
     = body_before (ascii ''Jane Doe'') (ascii ''7.5'') (ascii ''4'')
         @ ascii ''Great trainer'' @ body_after
   \<and> d_body (generate_outreach_draft (\<lambda>_. ascii ''7.5'') (ascii ''2026-01-01T00:00:00'')
               (example_result example_long_quote))
       = body_before (ascii ''Jane Doe'') (ascii ''7.5'') (ascii ''4'')
           @ (map (\<lambda>i. 97 + i mod 26) [0..<197] @ ascii ''...'') @ body_after"
proof -
  have n: "d_trainer_display_name (generate_outreach_draft f t (example_result q)) = ascii ''Jane Doe''"
    for q f t
  proof -
    have "display_name (t_trainer_name (example_result q)) = ascii ''Jane Doe''" by code_simp
    then show ?thesis by (simp add: generate_outreach_draft_def Let_def)
  qed
  have i: "str_int (t_n_responses (example_result q)) = ascii ''4''" for q
    by code_simp
  have s: "selected_quote (example_result q) = q" for q
    by (simp add: selected_quote_def example_result_def)
  have a: "t_overall_avg (example_result q) = Some (15 / 2)" for q
    by (simp add: example_result_def)
  have l1: "length (ascii ''Great trainer'') \<le> 200" by (simp add: ascii_def)
  have l2: "200 < length example_long_quote" by (simp add: example_long_quote_def)
  have tk: "take 197 example_long_quote = map (\<lambda>i. 97 + i mod 26) [0..<197]"
    by (simp add: example_long_quote_def take_map)
  from outreach_quote_embedding
         [of "example_result (ascii ''Great trainer'')" "\<lambda>_. ascii ''7.5''"
             "ascii ''2026-01-01T00:00:00''"]
       l1
  have one: "d_body (generate_outreach_draft (\<lambda>_. ascii ''7.5'') (ascii ''2026-01-01T00:00:00'')
             (example_result (ascii ''Great trainer'')))
     = body_before (ascii ''Jane Doe'') (ascii ''7.5'') (ascii ''4'')
         @ ascii ''Great trainer'' @ body_after"
    by (simp add: n i s a)
  from outreach_quote_embedding
         [of "example_result example_long_quote" "\<lambda>_. ascii ''7.5''"
             "ascii ''2026-01-01T00:00:00''"]
       l2
  have two: "d_body (generate_outreach_draft (\<lambda>_. ascii ''7.5'') (ascii ''2026-01-01T00:00:00'')
               (example_result example_long_quote))
       = body_before (ascii ''Jane Doe'') (ascii ''7.5'') (ascii ''4'')
           @ (map (\<lambda>i. 97 + i mod 26) [0..<197] @ ascii ''...'') @ body_after"
    by (simp add: n i s a tk)
  from one two show ?thesis by blast
qed

theorem truncated_quote_has_200_witness:
  "truncate_quote (replicate 201 97) = replicate 197 97 @ [46, 46, 46]
   \<and> length (truncate_quote (replicate 201 97)) = 200"
proof -
  have s: "selected_quote (example_result q) = q" for q
    by (simp add: selected_quote_def example_result_def)
  have l: "200 < length (selected_quote (example_result (replicate 201 97)))"
    by (simp add: s)
  from truncated_quote_has_200 [OF l] show ?thesis by (simp add: s)
qed

end
